theory Spec2Isabelle
  imports Complex_Main "HOL-Library.Word"
begin

section \<open>JavaScript values used by the chat widgets\<close>

text \<open>
  A JavaScript string is a sequence of UTF-16 code units. String literals of the source
  are written with \<open>str\<close>, which maps each (ASCII) character to its code unit.
\<close>

type_synonym jsstring = "16 word list"

definition str :: "string \<Rightarrow> jsstring" where
  "str cs = map of_char cs"

text \<open>
  \<open>String.prototype.trim\<close> removes leading and trailing white space and line
  terminators (ECMAScript \<open>WhiteSpace\<close> and \<open>LineTerminator\<close>): TAB, LF, VT, FF, CR,
  SPACE, NBSP, U+1680, U+2000 to U+200A, U+2028, U+2029, U+202F, U+205F, U+3000, U+FEFF.
\<close>

definition isWhiteSpace :: "16 word \<Rightarrow> bool" where
  "isWhiteSpace c \<longleftrightarrow>
     c = 0x0009 \<or> c = 0x000A \<or> c = 0x000B \<or> c = 0x000C \<or> c = 0x000D \<or> c = 0x0020 \<or>
     c = 0x00A0 \<or> c = 0x1680 \<or> (0x2000 \<le> c \<and> c \<le> 0x200A) \<or> c = 0x2028 \<or>
     c = 0x2029 \<or> c = 0x202F \<or> c = 0x205F \<or> c = 0x3000 \<or> c = 0xFEFF"

definition trim :: "jsstring \<Rightarrow> jsstring" where
  "trim s = rev (dropWhile isWhiteSpace (rev (dropWhile isWhiteSpace s)))"

text \<open>A string is truthy exactly when it is not empty (\<open>!s\<close>, \<open>s || d\<close>, \<open>s && e\<close>).\<close>

definition truthy :: "jsstring \<Rightarrow> bool" where
  "truthy s \<longleftrightarrow> s \<noteq> []"

text \<open>
  \<open>String.prototype.split\<close> with a one-character separator: the pieces between
  the occurrences of the separator, so the result is never empty and
  \<open>''''.split('/')\<close> is \<open>['''']\<close>.
\<close>

fun split :: "16 word \<Rightarrow> jsstring \<Rightarrow> jsstring list" where
  "split sep [] = [[]]"
| "split sep (c # cs) =
     (if c = sep then [] # split sep cs
      else (case split sep cs of
              [] \<Rightarrow> [[c]]
            | p # ps \<Rightarrow> (c # p) # ps))"

text \<open>
  Values that reach the widget from \<open>response.json()\<close>. Numbers are kept abstract
  (type parameter \<open>'n\<close>): the widget stores them and never computes with them in
  \<open>sendMessage\<close>. An \<open>Object\<close> is the list of the members of the JSON text, in
  the order of the text; as in \<open>JSON.parse\<close>, the last member with a given key is the
  value of the property.
\<close>

datatype 'n jsvalue =
    Undefined
  | Null
  | Boolean bool
  | Number 'n
  | String jsstring
  | Array "'n jsvalue list"
  | Object "(jsstring \<times> 'n jsvalue) list"

datatype js_error =
    TypeError
  | SyntaxError
  | NetworkError
  | ApiRequestFailed nat

text \<open>
  Property access \<open>v.k\<close> for a key that no prototype defines (\<open>answer\<close>,
  \<open>sources\<close>, \<open>confidence\<close>): a \<open>TypeError\<close> on \<open>undefined\<close> and \<open>null\<close>,
  the own property of an object, and \<open>undefined\<close> everywhere else.
\<close>

fun getProperty :: "'n jsvalue \<Rightarrow> jsstring \<Rightarrow> js_error + 'n jsvalue" where
  "getProperty Undefined k = Inl TypeError"
| "getProperty Null k = Inl TypeError"
| "getProperty (Object ps) k =
     (case map_of (rev ps) k of None \<Rightarrow> Inr Undefined | Some v \<Rightarrow> Inr v)"
| "getProperty v k = Inr Undefined"

subsection \<open>JSON.stringify on an object of string properties\<close>

text \<open>
  The request body is an object literal whose property values are strings or
  \<open>undefined\<close> (\<open>None\<close>). \<open>JSON.stringify\<close> skips the properties whose value is
  \<open>undefined\<close>, quotes keys and values (\<open>QuoteJSONString\<close>) and joins the members
  with commas inside braces, without white space.
\<close>

definition hexDigit :: "nat \<Rightarrow> 16 word" where
  "hexDigit d = (if d < 10 then of_nat (48 + d) else of_nat (87 + d))"

definition UnicodeEscape :: "16 word \<Rightarrow> jsstring" where
  "UnicodeEscape c =
     [0x5C, 0x75,
      hexDigit (unat c div 4096 mod 16), hexDigit (unat c div 256 mod 16),
      hexDigit (unat c div 16 mod 16), hexDigit (unat c mod 16)]"

definition isLeadingSurrogate :: "16 word \<Rightarrow> bool" where
  "isLeadingSurrogate c \<longleftrightarrow> 0xD800 \<le> c \<and> c \<le> 0xDBFF"

definition isTrailingSurrogate :: "16 word \<Rightarrow> bool" where
  "isTrailingSurrogate c \<longleftrightarrow> 0xDC00 \<le> c \<and> c \<le> 0xDFFF"

fun quoteChars :: "jsstring \<Rightarrow> jsstring" where
  "quoteChars [] = []"
| "quoteChars (c # cs) =
     (if c = 0x08 then [0x5C, 0x62] @ quoteChars cs
      else if c = 0x09 then [0x5C, 0x74] @ quoteChars cs
      else if c = 0x0A then [0x5C, 0x6E] @ quoteChars cs
      else if c = 0x0C then [0x5C, 0x66] @ quoteChars cs
      else if c = 0x0D then [0x5C, 0x72] @ quoteChars cs
      else if c = 0x22 then [0x5C, 0x22] @ quoteChars cs
      else if c = 0x5C then [0x5C, 0x5C] @ quoteChars cs
      else if c < 0x20 then UnicodeEscape c @ quoteChars cs
      else if isLeadingSurrogate c then
        (case cs of
           [] \<Rightarrow> UnicodeEscape c
         | d # ds \<Rightarrow>
             if isTrailingSurrogate d then c # d # quoteChars ds
             else UnicodeEscape c @ quoteChars cs)
      else if isTrailingSurrogate c then UnicodeEscape c @ quoteChars cs
      else c # quoteChars cs)"

definition QuoteJSONString :: "jsstring \<Rightarrow> jsstring" where
  "QuoteJSONString s = [0x22] @ quoteChars s @ [0x22]"

text \<open>The members that are serialised: the properties with a defined value, in order.\<close>

fun jsonMembers :: "(jsstring \<times> jsstring option) list \<Rightarrow> (jsstring \<times> jsstring) list" where
  "jsonMembers [] = []"
| "jsonMembers ((k, None) # ps) = jsonMembers ps"
| "jsonMembers ((k, Some v) # ps) = (k, v) # jsonMembers ps"

fun joinComma :: "jsstring list \<Rightarrow> jsstring" where
  "joinComma [] = []"
| "joinComma [m] = m"
| "joinComma (m # ms) = m @ [0x2C] @ joinComma ms"

definition JSON_stringify :: "(jsstring \<times> jsstring option) list \<Rightarrow> jsstring" where
  "JSON_stringify obj =
     [0x7B] @
     joinComma (map (\<lambda>(k, v). QuoteJSONString k @ [0x3A] @ QuoteJSONString v) (jsonMembers obj)) @
     [0x7D]"


subsection \<open>Reading a JSON text\<close>

text \<open>
  What a reader of JSON obtains from the text of an object whose values are strings,
  written without white space: the members, in order, with the escapes of the JSON
  grammar resolved (the two-character escapes of the quotation mark, the reverse solidus,
  the solidus, backspace, form feed, line feed, carriage return and tab, and the escape
  with four hexadecimal digits). Control characters are not allowed unescaped. This is
  the receiving side of the request body; it states what the fields of a body are.
\<close>

definition hexValue :: "16 word \<Rightarrow> nat option" where
  "hexValue c =
     (if 0x30 \<le> c \<and> c \<le> 0x39 then Some (unat c - 48)
      else if 0x61 \<le> c \<and> c \<le> 0x66 then Some (unat c - 87)
      else if 0x41 \<le> c \<and> c \<le> 0x46 then Some (unat c - 55)
      else None)"

definition escapedChar :: "16 word \<Rightarrow> 16 word option" where
  "escapedChar e =
     (if e = 0x22 then Some 0x22
      else if e = 0x5C then Some 0x5C
      else if e = 0x2F then Some 0x2F
      else if e = 0x62 then Some 0x08
      else if e = 0x66 then Some 0x0C
      else if e = 0x6E then Some 0x0A
      else if e = 0x72 then Some 0x0D
      else if e = 0x74 then Some 0x09
      else None)"

definition consChar :: "16 word \<Rightarrow> (jsstring \<times> jsstring) option \<Rightarrow> (jsstring \<times> jsstring) option" where
  "consChar x r = (case r of None \<Rightarrow> None | Some (s, rest) \<Rightarrow> Some (x # s, rest))"

text \<open>
  The characters of a string after its opening quote, up to the closing quote: the
  string read and the text that follows it.
\<close>

fun readString :: "jsstring \<Rightarrow> (jsstring \<times> jsstring) option" where
  "readString [] = None"
| "readString (c # cs) =
     (if c = 0x22 then Some ([], cs)
      else if c = 0x5C then
        (case cs of
           [] \<Rightarrow> None
         | e # es \<Rightarrow>
             if e = 0x75 then
               (case es of
                  h1 # h2 # h3 # h4 # rest \<Rightarrow>
                    (case (hexValue h1, hexValue h2, hexValue h3, hexValue h4) of
                       (Some a, Some b, Some c', Some d) \<Rightarrow>
                         consChar (of_nat (((a * 16 + b) * 16 + c') * 16 + d)) (readString rest)
                     | _ \<Rightarrow> None)
                | _ \<Rightarrow> None)
             else
               (case escapedChar e of
                  None \<Rightarrow> None
                | Some x \<Rightarrow> consChar x (readString es)))
      else if c < 0x20 then None
      else consChar c (readString cs))"

text \<open>
  The members of an object after its opening brace: a quoted key, a colon, a quoted
  value, then a comma and more members, or the closing brace and the end of the text.
\<close>

function parseMembers :: "jsstring \<Rightarrow> (jsstring \<times> jsstring) list option" where
  "parseMembers cs =
     (case cs of
        [] \<Rightarrow> None
      | q # cs1 \<Rightarrow>
          if q \<noteq> 0x22 then None
          else
            (case readString cs1 of
               None \<Rightarrow> None
             | Some (k, cs2) \<Rightarrow>
                 (case cs2 of
                    colon # q2 # cs3 \<Rightarrow>
                      if colon \<noteq> 0x3A \<or> q2 \<noteq> 0x22 then None
                      else
                        (case readString cs3 of
                           None \<Rightarrow> None
                         | Some (v, cs4) \<Rightarrow>
                             (case cs4 of
                                [] \<Rightarrow> None
                              | d # cs5 \<Rightarrow>
                                  if d = 0x7D then (if cs5 = [] then Some [(k, v)] else None)
                                  else if d = 0x2C then
                                    (case parseMembers cs5 of
                                       None \<Rightarrow> None
                                     | Some ms \<Rightarrow> Some ((k, v) # ms))
                                  else None))
                  | _ \<Rightarrow> None)))"
  by pat_completeness auto
termination
proof (relation "measure length")
  show "wf (measure length)" by simp
next
  have consChar_Some: "consChar x r = Some (s, rest) \<longleftrightarrow> (\<exists>s'. r = Some (s', rest) \<and> s = x # s')"
    for x r s rest
    by (cases r) (auto simp add: consChar_def)
  have shorter: "readString cs = Some (s, rest) \<Longrightarrow> length rest < length cs" for cs s rest
  proof (induction "length cs" arbitrary: cs s rest rule: less_induct)
    case less
    have IH: "\<And>cs' s' r. readString cs' = Some (s', r) \<Longrightarrow> length cs' < length cs \<Longrightarrow>
        length r < length cs'"
      using less.hyps by blast
    show ?case
    proof (cases cs)
      case Nil
      with less.prems show ?thesis by simp
    next
      case (Cons c cs')
      with less.prems show ?thesis
        by (auto simp add: consChar_Some split: if_splits list.splits option.splits
            dest!: IH)
    qed
  qed
  fix cs :: jsstring and q cs1 x2 k cs2 colon cs2' q2 cs3 x2a v cs4 d cs5
  assume "cs = q # cs1" "readString cs1 = Some x2" "(k, cs2) = x2"
    "cs2 = colon # cs2'" "cs2' = q2 # cs3" "readString cs3 = Some x2a" "(v, cs4) = x2a"
    "cs4 = d # cs5"
  then have "length cs2 < length cs1" "length cs4 < length cs3"
    using shorter by metis+
  with \<open>cs = q # cs1\<close> \<open>cs2 = colon # cs2'\<close> \<open>cs2' = q2 # cs3\<close> \<open>cs4 = d # cs5\<close>
  show "(cs5, cs) \<in> measure length" by simp
qed

declare parseMembers.simps [simp del]

definition JSON_parse_object :: "jsstring \<Rightarrow> (jsstring \<times> jsstring) list option" where
  "JSON_parse_object cs =
     (case cs of
        [] \<Rightarrow> None
      | b # cs1 \<Rightarrow>
          if b \<noteq> 0x7B then None
          else if cs1 = [0x7D] then Some []
          else parseMembers cs1)"


section \<open>The Docusaurus chat widget (ChatbotWidget.jsx)\<close>

subsection \<open>Component state and messages\<close>

text \<open>
  A message of the conversation. The user message has no \<open>sources\<close>,
  \<open>confidence\<close> and \<open>isError\<close> property and the error message no \<open>sources\<close>
  and \<open>confidence\<close>: a missing property reads as \<open>undefined\<close>, which is
  \<open>Undefined\<close> here and \<open>False\<close> for the flag \<open>isError\<close>.
\<close>

record 'n message =
  msg_id :: int
  msg_text :: "'n jsvalue"
  sender :: jsstring
  sources :: "'n jsvalue"
  confidence :: "'n jsvalue"
  isError :: bool
  timestamp :: jsstring

text \<open>The six \<open>useState\<close> cells of the component.\<close>

record 'n state =
  isOpen :: bool
  messages :: "'n message list"
  inputValue :: jsstring
  isLoading :: bool
  currentModule :: jsstring
  currentChapter :: jsstring

definition initialState :: "'n state" where
  "initialState =
     \<lparr>isOpen = False, messages = [], inputValue = [], isLoading = False,
      currentModule = [], currentChapter = []\<rparr>"

text \<open>
  One reading of the clock: the value of \<open>Date.now()\<close> and the string of
  \<open>new Date().toISOString()\<close> taken for one message.
\<close>

record tick =
  date_now :: int
  date_iso :: jsstring

text \<open>The arguments of the call of \<open>fetch\<close>.\<close>

record request =
  url :: jsstring
  http_method :: jsstring
  headers :: "(jsstring \<times> jsstring) list"
  body :: jsstring

text \<open>
  How the awaited \<open>fetch\<close> settles: the promise rejects (no response at all), or a
  response arrives with its status and the result of \<open>response.json()\<close>, which is
  \<open>None\<close> when the body is not JSON.
\<close>

datatype 'n fetch_outcome =
    Rejected
  | Response nat "'n jsvalue option"

definition response_ok :: "nat \<Rightarrow> bool" where
  "response_ok status \<longleftrightarrow> 200 \<le> status \<and> status \<le> 299"

subsection \<open>sendMessage\<close>

text \<open>
  \<open>process.env.REACT_APP_CHATBOT_API_URL || 'http://localhost:8000'\<close>; the argument is
  the environment variable, \<open>None\<close> when it is not set.
\<close>

definition API_BASE_URL :: "jsstring option \<Rightarrow> jsstring" where
  "API_BASE_URL env =
     (case env of
        None \<Rightarrow> str ''http://localhost:8000''
      | Some u \<Rightarrow> if truthy u then u else str ''http://localhost:8000'')"

definition userMessage :: "tick \<Rightarrow> jsstring \<Rightarrow> 'n message" where
  "userMessage t input =
     \<lparr>msg_id = date_now t, msg_text = String input, sender = str ''user'',
      sources = Undefined, confidence = Undefined, isError = False,
      timestamp = date_iso t\<rparr>"

definition requestBody :: "jsstring \<Rightarrow> jsstring \<Rightarrow> jsstring \<Rightarrow> (jsstring \<times> jsstring option) list" where
  "requestBody input cur_module cur_chapter =
     [(str ''question'', Some input),
      (str ''module_context'', if truthy cur_module then Some cur_module else None),
      (str ''chapter_context'', if truthy cur_chapter then Some cur_chapter else None)]"

definition chatRequest :: "jsstring option \<Rightarrow> 'n state \<Rightarrow> request" where
  "chatRequest env s =
     \<lparr>url = API_BASE_URL env @ str ''/chat'',
      http_method = str ''POST'',
      headers = [(str ''Content-Type'', str ''application/json'')],
      body = JSON_stringify (requestBody (inputValue s) (currentModule s) (currentChapter s))\<rparr>"

text \<open>
  The synchronous part of \<open>sendMessage\<close>, up to \<open>await fetch(...)\<close>: the guard, the
  three state updates and the request that is issued (\<open>None\<close> when the guard returns).
\<close>

definition sendMessage_before_await ::
    "jsstring option \<Rightarrow> tick \<Rightarrow> 'n state \<Rightarrow> 'n state \<times> request option" where
  "sendMessage_before_await env t s =
     (if \<not> truthy (trim (inputValue s)) \<or> isLoading s then (s, None)
      else
        (s\<lparr>messages := messages s @ [userMessage t (inputValue s)],
           inputValue := [],
           isLoading := True\<rparr>,
         Some (chatRequest env s)))"

definition botMessage :: "tick \<Rightarrow> 'n jsvalue \<Rightarrow> js_error + 'n message" where
  "botMessage t data =
     (case getProperty data (str ''answer'') of
        Inl e \<Rightarrow> Inl e
      | Inr a \<Rightarrow>
          (case getProperty data (str ''sources'') of
             Inl e \<Rightarrow> Inl e
           | Inr srcs \<Rightarrow>
               (case getProperty data (str ''confidence'') of
                  Inl e \<Rightarrow> Inl e
                | Inr c \<Rightarrow>
                    Inr \<lparr>msg_id = date_now t + 1, msg_text = a, sender = str ''bot'',
                         sources = srcs, confidence = c, isError = False,
                         timestamp = date_iso t\<rparr>)))"

definition errorMessage :: "tick \<Rightarrow> 'n message" where
  "errorMessage t =
     \<lparr>msg_id = date_now t + 1,
      msg_text = String (str ''Sorry, I encountered an error processing your question. Please try again.''),
      sender = str ''bot'', sources = Undefined, confidence = Undefined, isError = True,
      timestamp = date_iso t\<rparr>"

text \<open>The body of the \<open>try\<close> block after the \<open>await\<close>: the bot message, or what is thrown.\<close>

definition tryBlock :: "'n fetch_outcome \<Rightarrow> tick \<Rightarrow> js_error + 'n message" where
  "tryBlock outcome t =
     (case outcome of
        Rejected \<Rightarrow> Inl NetworkError
      | Response status json \<Rightarrow>
          if \<not> response_ok status then Inl (ApiRequestFailed status)
          else (case json of
                  None \<Rightarrow> Inl SyntaxError
                | Some data \<Rightarrow> botMessage t data))"

text \<open>
  The rest of \<open>sendMessage\<close>, run when the \<open>fetch\<close> has settled: \<open>try\<close>, \<open>catch\<close>
  and \<open>finally\<close>. The state updates are functional (\<open>prev => [...prev, m]\<close>), so they
  apply to the state of that moment. The second component is what \<open>console.error\<close>
  has logged.
\<close>

definition sendMessage_after_await ::
    "'n fetch_outcome \<Rightarrow> tick \<Rightarrow> 'n state \<Rightarrow> 'n state \<times> js_error list" where
  "sendMessage_after_await outcome t s =
     (case tryBlock outcome t of
        Inr m \<Rightarrow> (s\<lparr>messages := messages s @ [m], isLoading := False\<rparr>, [])
      | Inl e \<Rightarrow> (s\<lparr>messages := messages s @ [errorMessage t], isLoading := False\<rparr>, [e]))"

text \<open>
  One whole run of \<open>sendMessage\<close> with nothing else happening in between: the final
  state, the request issued (if any) and the console log.
\<close>

definition sendMessage ::
    "jsstring option \<Rightarrow> tick \<Rightarrow> 'n fetch_outcome \<Rightarrow> tick \<Rightarrow> 'n state \<Rightarrow>
     'n state \<times> request option \<times> js_error list" where
  "sendMessage env t1 outcome t2 s =
     (case sendMessage_before_await env t1 s of
        (s1, None) \<Rightarrow> (s1, None, [])
      | (s1, Some r) \<Rightarrow>
          (case sendMessage_after_await outcome t2 s1 of
             (s2, logged) \<Rightarrow> (s2, Some r, logged)))"

subsection \<open>Page context and the other handlers\<close>

text \<open>
  The mount effect: module and chapter are taken from \<open>window.location.pathname\<close>.
\<close>

definition pageContextEffect :: "jsstring \<Rightarrow> 'n state \<Rightarrow> 'n state" where
  "pageContextEffect pathname s =
     (let pathParts = split 0x2F pathname in
      if length pathParts \<ge> 3 then
        (let moduleSection = pathParts ! 2;
             s1 = (if moduleSection \<noteq> str ''modules'' then s\<lparr>currentModule := moduleSection\<rparr> else s)
         in if length pathParts \<ge> 4 then s1\<lparr>currentChapter := pathParts ! 3\<rparr> else s1)
      else s)"

text \<open>
  \<open>toggleChatbot\<close> calls \<open>setIsOpen(!isOpen)\<close>: the value negated is the
  \<open>isOpen\<close> of the render that created the handler (first argument), the state
  updated is the current one (second argument).
\<close>

definition toggleChatbot :: "'n state \<Rightarrow> 'n state \<Rightarrow> 'n state" where
  "toggleChatbot c s = s\<lparr>isOpen := \<not> isOpen c\<rparr>"

text \<open>The \<open>disabled\<close> attribute of the Send button.\<close>

definition sendDisabled :: "'n state \<Rightarrow> bool" where
  "sendDisabled s \<longleftrightarrow> \<not> truthy (trim (inputValue s)) \<or> isLoading s"


subsection \<open>The widget as a transition system\<close>

text \<open>
  What can happen to a mounted widget: a click on Send, a key press in the text area,
  a change of the text area, a click on the open/close button, the settling of a
  pending \<open>fetch\<close>, a re-render, and the unmounting of the component (a render that
  throws, or its removal from the page).

  The state variables that a handler reads (\<open>inputValue\<close>, \<open>isLoading\<close>,
  \<open>currentModule\<close>, \<open>currentChapter\<close>, \<open>isOpen\<close>) are constants of the render
  that created the handler. So the system keeps two states: \<open>widget\<close>, the current
  React state, which the setters update, and \<open>closure\<close>, the state as the latest
  render has seen it, which the handlers read. A re-render copies the first into the
  second. The requests that have been issued and have not settled yet are kept beside
  them.

  Whether a render throws depends on the values received (an \<open>answer\<close> that is an
  object is not a valid child, for instance). The sequence of events decides it: where
  the render throws, the sequence has \<open>Unmounted\<close> in the place of \<open>Rendered\<close>. A
  statement about all sequences therefore covers both outcomes of every render.
\<close>

datatype 'n event =
    SendClicked tick
  | KeyPressed jsstring bool tick
  | InputChanged jsstring
  | ToggleClicked
  | FetchSettled nat "'n fetch_outcome" tick
  | Rendered
  | Unmounted

record 'n system =
  widget :: "'n state"
  closure :: "'n state"
  alive :: bool
  in_flight :: "request list"

text \<open>
  A call of \<open>sendMessage\<close> up to its \<open>await\<close>: the guard, the user message and the
  request are made of the values of the closure; \<open>setMessages(prev => [...prev,
  userMessage])\<close>, \<open>setInputValue('')\<close> and \<open>setIsLoading(true)\<close> update the current
  state.
\<close>

definition callSendMessage :: "jsstring option \<Rightarrow> tick \<Rightarrow> 'n system \<Rightarrow> 'n system" where
  "callSendMessage env t sys =
     (if \<not> truthy (trim (inputValue (closure sys))) \<or> isLoading (closure sys) then sys
      else
        sys\<lparr>widget :=
              (widget sys)\<lparr>messages :=
                             messages (widget sys) @ [userMessage t (inputValue (closure sys))],
                           inputValue := [],
                           isLoading := True\<rparr>,
            in_flight := in_flight sys @ [chatRequest env (closure sys)]\<rparr>)"

text \<open>\<open>handleKeyPress\<close>: Enter without Shift sends.\<close>

definition handleKeyPress :: "jsstring option \<Rightarrow> jsstring \<Rightarrow> bool \<Rightarrow> tick \<Rightarrow> 'n system \<Rightarrow> 'n system" where
  "handleKeyPress env key shiftKey t sys =
     (if key = str ''Enter'' \<and> \<not> shiftKey then callSendMessage env t sys else sys)"

text \<open>
  The continuation of \<open>sendMessage\<close> after the \<open>await\<close> reads no state variable; its
  functional updates apply to the current state. On an unmounted component the setters
  have no effect, and no handler runs any more.
\<close>

definition settle :: "nat \<Rightarrow> 'n fetch_outcome \<Rightarrow> tick \<Rightarrow> 'n system \<Rightarrow> 'n system" where
  "settle i outcome t sys =
     (if i < length (in_flight sys) then
        sys\<lparr>widget :=
              (if alive sys then fst (sendMessage_after_await outcome t (widget sys))
               else widget sys),
            in_flight := take i (in_flight sys) @ drop (Suc i) (in_flight sys)\<rparr>
      else sys)"

fun handle :: "jsstring option \<Rightarrow> 'n system \<Rightarrow> 'n event \<Rightarrow> 'n system" where
  "handle env sys (SendClicked t) = (if alive sys then callSendMessage env t sys else sys)"
| "handle env sys (KeyPressed key shiftKey t) =
     (if alive sys then handleKeyPress env key shiftKey t sys else sys)"
| "handle env sys (InputChanged v) =
     (if alive sys then sys\<lparr>widget := (widget sys)\<lparr>inputValue := v\<rparr>\<rparr> else sys)"
| "handle env sys ToggleClicked =
     (if alive sys then sys\<lparr>widget := toggleChatbot (closure sys) (widget sys)\<rparr> else sys)"
| "handle env sys (FetchSettled i outcome t) = settle i outcome t sys"
| "handle env sys Rendered = (if alive sys then sys\<lparr>closure := widget sys\<rparr> else sys)"
| "handle env sys Unmounted = sys\<lparr>alive := False\<rparr>"

text \<open>
  After mounting: the first render has seen the initial state, and the mount effect has
  set module and chapter of the current state.
\<close>

definition mounted :: "jsstring \<Rightarrow> 'n system" where
  "mounted pathname =
     \<lparr>widget = pageContextEffect pathname initialState, closure = initialState,
      alive = True, in_flight = []\<rparr>"

definition run :: "jsstring option \<Rightarrow> jsstring \<Rightarrow> 'n event list \<Rightarrow> 'n system" where
  "run env pathname evs = foldl (handle env) (mounted pathname) evs"




section \<open>The original frontend widget (RAGChatbot)\<close>

definition RAGChatbot_API_BASE_URL :: "jsstring option \<Rightarrow> jsstring" where
  "RAGChatbot_API_BASE_URL env =
     (case env of
        None \<Rightarrow> str ''http://localhost:8000''
      | Some u \<Rightarrow> if truthy u then u else str ''http://localhost:8000'')"

definition RAGChatbot_sendMessage_before_await ::
    "jsstring option \<Rightarrow> tick \<Rightarrow> 'n state \<Rightarrow> 'n state \<times> request option" where
  "RAGChatbot_sendMessage_before_await env t s =
     (if \<not> truthy (trim (inputValue s)) \<or> isLoading s then (s, None)
      else
        (let userMessage =
               \<lparr>msg_id = date_now t, msg_text = String (inputValue s), sender = str ''user'',
                sources = Undefined, confidence = Undefined, isError = False,
                timestamp = date_iso t\<rparr>;
             requestBody =
               [(str ''question'', Some (inputValue s)),
                (str ''module_context'',
                   if truthy (currentModule s) then Some (currentModule s) else None),
                (str ''chapter_context'',
                   if truthy (currentChapter s) then Some (currentChapter s) else None)]
         in (s\<lparr>messages := messages s @ [userMessage], inputValue := [], isLoading := True\<rparr>,
             Some \<lparr>url = RAGChatbot_API_BASE_URL env @ str ''/chat'',
                   http_method = str ''POST'',
                   headers = [(str ''Content-Type'', str ''application/json'')],
                   body = JSON_stringify requestBody\<rparr>)))"

definition RAGChatbot_tryBlock :: "'n fetch_outcome \<Rightarrow> tick \<Rightarrow> js_error + 'n message" where
  "RAGChatbot_tryBlock outcome t =
     (case outcome of
        Rejected \<Rightarrow> Inl NetworkError
      | Response status json \<Rightarrow>
          if \<not> response_ok status then Inl (ApiRequestFailed status)
          else (case json of
                  None \<Rightarrow> Inl SyntaxError
                | Some data \<Rightarrow>
                    (case getProperty data (str ''answer'') of
                       Inl e \<Rightarrow> Inl e
                     | Inr a \<Rightarrow>
                         (case getProperty data (str ''sources'') of
                            Inl e \<Rightarrow> Inl e
                          | Inr srcs \<Rightarrow>
                              (case getProperty data (str ''confidence'') of
                                 Inl e \<Rightarrow> Inl e
                               | Inr c \<Rightarrow>
                                   Inr \<lparr>msg_id = date_now t + 1, msg_text = a,
                                        sender = str ''bot'', sources = srcs, confidence = c,
                                        isError = False, timestamp = date_iso t\<rparr>)))))"

definition RAGChatbot_sendMessage_after_await ::
    "'n fetch_outcome \<Rightarrow> tick \<Rightarrow> 'n state \<Rightarrow> 'n state \<times> js_error list" where
  "RAGChatbot_sendMessage_after_await outcome t s =
     (case RAGChatbot_tryBlock outcome t of
        Inr m \<Rightarrow> (s\<lparr>messages := messages s @ [m], isLoading := False\<rparr>, [])
      | Inl e \<Rightarrow>
          (let errorMessage =
                 \<lparr>msg_id = date_now t + 1,
                  msg_text = String (str ''Sorry, I encountered an error processing your question. Please try again.''),
                  sender = str ''bot'', sources = Undefined, confidence = Undefined,
                  isError = True, timestamp = date_iso t\<rparr>
           in (s\<lparr>messages := messages s @ [errorMessage], isLoading := False\<rparr>, [e])))"

definition RAGChatbot_sendMessage ::
    "jsstring option \<Rightarrow> tick \<Rightarrow> 'n fetch_outcome \<Rightarrow> tick \<Rightarrow> 'n state \<Rightarrow>
     'n state \<times> request option \<times> js_error list" where
  "RAGChatbot_sendMessage env t1 outcome t2 s =
     (case RAGChatbot_sendMessage_before_await env t1 s of
        (s1, None) \<Rightarrow> (s1, None, [])
      | (s1, Some r) \<Rightarrow>
          (case RAGChatbot_sendMessage_after_await outcome t2 s1 of
             (s2, logged) \<Rightarrow> (s2, Some r, logged)))"


section \<open>The retrieval service behind /chat\<close>

text \<open>
  The widgets post to the RAG backend (\<open>backend/src/main.py\<close>,
  \<open>backend/src/rag_service.py\<close>, \<open>backend/src/vector_store.py\<close> in the task
  list). Its code is absent from the sources, so its data model and its operations are
  taken from sections 3, 4 and 6 of the specification.
\<close>

text \<open>Modelled from the spec: the backend's Chunk type is absent from the sources; a Chunk
  is the immutable unit of ingested course text of section 3, with its embedding of some
  fixed type \<open>'e\<close>.\<close>

record 'e chunk =
  chunk_id :: string
  source_path :: string
  module_tag :: string
  chapter_tag :: string
  position :: nat
  raw_text :: string
  embedding :: 'e

text \<open>Modelled from the spec: the backend's Query type is absent from the sources; section 3
  gives it a question text, an optional module and chapter filter and a timestamp.\<close>

record query =
  question_text :: string
  module_filter :: "string option"
  chapter_filter :: "string option"
  asked_at :: nat

text \<open>Modelled from the spec: the backend's Answer type is absent from the sources; section 3
  gives it an answer text, a confidence and the ordered source identifiers.\<close>

record answer =
  answer_text :: string
  answer_confidence :: real
  answer_sources :: "string list"

text \<open>Modelled from the spec: the backend's error types are absent from the sources; these are
  the error kinds of section 7.\<close>

datatype service_error =
    ValidationError
  | IndexUnavailableError
  | EmbeddingError
  | SynthesisError
  | IngestError

text \<open>Modelled from the spec: the backend's settings and its external collaborators are absent
  from the sources. This is the configuration surface of section 6 (top-K, minimum
  similarity cutoff, the low-confidence threshold of section 8, the combining function of
  the confidence) and the external collaborators of section 4: the embedding function,
  the similarity of two embeddings, the agreement among the retrieved texts, and the
  generation capability, which answers \<open>None\<close> when it is unreachable.\<close>

record 'e settings =
  top_k :: nat
  min_similarity :: real
  low_confidence_threshold :: real
  combine :: "real \<Rightarrow> real \<Rightarrow> real"
  embed :: "string \<Rightarrow> 'e"
  similarity :: "'e \<Rightarrow> 'e \<Rightarrow> real"
  agreement :: "string list \<Rightarrow> real"
  generate :: "string \<Rightarrow> string list \<Rightarrow> string option"

text \<open>Modelled from the spec: the backend's RetrievalResult type is absent from the sources;
  by section 3 it is the ordered sequence of (chunk, similarity score) pairs.\<close>

type_synonym 'e retrieval_result = "('e chunk \<times> real) list"

text \<open>Modelled from the spec: the retriever's filter is absent from the sources. The scope of
  the optional module/chapter filter of section 4.3; a filter that is not given admits
  every chunk.\<close>

definition in_scope :: "query \<Rightarrow> 'e chunk \<Rightarrow> bool" where
  "in_scope q c \<longleftrightarrow>
     (case module_filter q of None \<Rightarrow> True | Some m \<Rightarrow> module_tag c = m) \<and>
     (case chapter_filter q of None \<Rightarrow> True | Some ch \<Rightarrow> chapter_tag c = ch)"

text \<open>Modelled from the spec: the retriever's scoring is absent from the sources. The
  similarity between the query embedding and a candidate chunk's embedding (section 4.3).\<close>

definition score :: "'e settings \<Rightarrow> query \<Rightarrow> 'e chunk \<Rightarrow> real" where
  "score cfg q c = similarity cfg (embed cfg (question_text q)) (embedding c)"

text \<open>Modelled from the spec: the retriever's ranking order is absent from the sources. By
  section 4.3: descending similarity, ties broken by chunk sequence position (the earlier
  position wins).\<close>

definition ranksBefore :: "'e chunk \<times> real \<Rightarrow> 'e chunk \<times> real \<Rightarrow> bool" where
  "ranksBefore a b \<longleftrightarrow>
     snd b < snd a \<or> (snd a = snd b \<and> position (fst a) \<le> position (fst b))"

text \<open>Modelled from the spec: the retriever's sort is absent from the sources. Ranking by
  insertion into the ranked sequence; among entries equal in score and position the order
  of the corpus is kept.\<close>

fun place :: "'e chunk \<times> real \<Rightarrow> 'e retrieval_result \<Rightarrow> 'e retrieval_result" where
  "place e [] = [e]"
| "place e (x # xs) = (if ranksBefore e x then e # x # xs else x # place e xs)"

text \<open>Modelled from the spec: the retriever's sort is absent from the sources. The candidates
  in ranking order (section 4.3).\<close>

fun ranked :: "'e retrieval_result \<Rightarrow> 'e retrieval_result" where
  "ranked [] = []"
| "ranked (e # es) = place e (ranked es)"

text \<open>Modelled from the spec: the retriever is absent from the sources. This is
  \<open>retrieve(query, filter?)\<close> of section 4.3: the filter is a hard pre-filter, the candidates that meet the minimum-similarity cutoff are ranked,
  and the top K are returned; the result is empty when no chunk meets the cutoff.\<close>

definition retrieve :: "'e settings \<Rightarrow> 'e chunk list \<Rightarrow> query \<Rightarrow> 'e retrieval_result" where
  "retrieve cfg corpus q =
     take (top_k cfg)
       (ranked
          (filter (\<lambda>(c, s). min_similarity cfg \<le> s)
             (map (\<lambda>c. (c, score cfg q c)) (filter (in_scope q) corpus))))"

text \<open>Modelled from the spec: the synthesizer's refusal text is absent from the sources; the
  text of the refusal answer of section 3.\<close>

definition refusal_text :: string where
  "refusal_text = ''not covered by course content''"

text \<open>Modelled from the spec: the synthesizer's refusal answer is absent from the sources. The
  refusal answer of section 3: refusal text, low confidence (the least value of the range
  [0,1]) and no sources.\<close>

definition refusal :: answer where
  "refusal = \<lparr>answer_text = refusal_text, answer_confidence = 0, answer_sources = []\<rparr>"

text \<open>Modelled from the spec: the synthesizer's deduplication is absent from the sources.
  Deduplication of the source identifiers that keeps the order of relevance (first
  occurrences are kept, section 6).\<close>

definition dedup :: "string list \<Rightarrow> string list" where
  "dedup xs = rev (remdups (rev xs))"

text \<open>Modelled from the spec: the answer synthesizer is absent from the sources. This is
  \<open>synthesize(query, RetrievalResult)\<close> of section 4.4. An empty result short-circuits to the refusal answer; otherwise the generation
  collaborator is called once with the question and the retrieved texts, the confidence
  combines the top score with the agreement among the results, and the sources are the
  identifiers of the retrieved chunks. The second component lists the calls made to the
  generation collaborator.\<close>

definition synthesize ::
    "'e settings \<Rightarrow> query \<Rightarrow> 'e retrieval_result \<Rightarrow>
     (service_error + answer) \<times> (string \<times> string list) list" where
  "synthesize cfg q result =
     (case result of
        [] \<Rightarrow> (Inr refusal, [])
      | best # rest \<Rightarrow>
          (let texts = map (raw_text \<circ> fst) result;
               call = (question_text q, texts)
           in case generate cfg (question_text q) texts of
                None \<Rightarrow> (Inl SynthesisError, [call])
              | Some reply \<Rightarrow>
                  (Inr \<lparr>answer_text = reply,
                        answer_confidence = combine cfg (snd best) (agreement cfg texts),
                        answer_sources = dedup (map (chunk_id \<circ> fst) result)\<rparr>,
                   [call])))"

text \<open>Modelled from the spec: the backend's request type is absent from the sources; the
  request of \<open>POST /chat\<close> (section 6).\<close>

record chat_request =
  question :: string
  module_context :: "string option"
  chapter_context :: "string option"

text \<open>Modelled from the spec: the /chat handler is absent from the sources. This is the Chat
  Session API of section 4.5. It validates that
  the question is not empty, applies the module/chapter context as the retriever's
  filter and returns the answer's fields verbatim.\<close>

definition chat ::
    "'e settings \<Rightarrow> 'e chunk list \<Rightarrow> nat \<Rightarrow> chat_request \<Rightarrow>
     (service_error + answer) \<times> (string \<times> string list) list" where
  "chat cfg corpus now req =
     (if question req = [] then (Inl ValidationError, [])
      else
        (let q = \<lparr>question_text = question req, module_filter = module_context req,
                  chapter_filter = chapter_context req, asked_at = now\<rparr>
         in synthesize cfg q (retrieve cfg corpus q)))"

section \<open>Invariant and example data\<close>


text \<open>Concrete inputs on which the theorems below are instantiated.\<close>

definition exampleTick :: tick where
  "exampleTick = \<lparr>date_now = 1700000000000, date_iso = str ''2023-11-14T22:13:20.000Z''\<rparr>"

definition exampleState :: "int state" where
  "exampleState =
     \<lparr>isOpen = True, messages = [], inputValue = str ''What is a node?'',
      isLoading = False, currentModule = str ''ros2'', currentChapter = []\<rparr>"


definition exampleData :: "int jsvalue" where
  "exampleData =
     Object [(str ''answer'', String (str ''A node is a process.'')),
             (str ''sources'', Array [String (str ''ros2/intro#0'')]),
             (str ''confidence'', Number 1)]"

definition exampleSettings :: "real settings" where
  "exampleSettings =
     \<lparr>top_k = 3, min_similarity = 1 / 2, low_confidence_threshold = 3 / 10,
      combine = (\<lambda>s a. s * a),
      embed = (\<lambda>q. 1),
      similarity = (\<lambda>a b. 1 - \<bar>a - b\<bar>),
      agreement = (\<lambda>texts. 1),
      generate = (\<lambda>q texts. Some ''ROS 2 uses nodes and topics'')\<rparr>"

definition exampleCorpus :: "real chunk list" where
  "exampleCorpus =
     [\<lparr>chunk_id = ''A'', source_path = ''docs/ros2/intro.md'', module_tag = ''ros2'',
       chapter_tag = ''intro'', position = 1, raw_text = ''ROS 2 uses nodes and topics'',
       embedding = 9 / 10\<rparr>,
      \<lparr>chunk_id = ''B'', source_path = ''docs/simulation/intro.md'',
       module_tag = ''simulation'', chapter_tag = ''intro'', position = 0,
       raw_text = ''Gazebo simulates physics'', embedding = 1 / 5\<rparr>,
      \<lparr>chunk_id = ''C'', source_path = ''docs/ros2/intro.md'', module_tag = ''ros2'',
       chapter_tag = ''intro'', position = 0, raw_text = ''A node is a process'',
       embedding = 9 / 10\<rparr>]"

definition exampleQuery :: "string option \<Rightarrow> query" where
  "exampleQuery m =
     \<lparr>question_text = ''What is a node?'', module_filter = m, chapter_filter = None,
      asked_at = 0\<rparr>"

definition exampleRequest :: chat_request where
  "exampleRequest =
     \<lparr>question = ''What is a node?'', module_context = Some ''ros2'',
      chapter_context = None\<rparr>"

section \<open>Facts about the JavaScript helpers\<close>

lemma trim_Nil_iff: "trim s = [] \<longleftrightarrow> (\<forall>c\<in>set s. isWhiteSpace c)"
proof
  assume "trim s = []"
  then have "\<forall>c\<in>set (dropWhile isWhiteSpace s). isWhiteSpace c"
    by (simp add: trim_def dropWhile_eq_Nil_conv)
  then have "dropWhile isWhiteSpace s = []"
    by (metis hd_dropWhile list.set_sel(1))
  then show "\<forall>c\<in>set s. isWhiteSpace c"
    by simp
next
  assume "\<forall>c\<in>set s. isWhiteSpace c"
  then have "dropWhile isWhiteSpace s = []"
    by simp
  then show "trim s = []"
    by (simp add: trim_def del: dropWhile_eq_Nil_conv)
qed

lemma guard_blank_iff:
  "\<not> truthy (trim (inputValue s)) \<longleftrightarrow> (\<forall>c\<in>set (inputValue s). isWhiteSpace c)"
  by (simp add: truthy_def trim_Nil_iff)

lemma str_keys_distinct:
  "str ''question'' \<noteq> str ''module_context''"
  "str ''question'' \<noteq> str ''chapter_context''"
  "str ''module_context'' \<noteq> str ''chapter_context''"
  by (simp_all add: str_def)

lemma jsonMembers_requestBody:
  "jsonMembers (requestBody q m c) =
     [(str ''question'', q)] @
     (if m \<noteq> [] then [(str ''module_context'', m)] else []) @
     (if c \<noteq> [] then [(str ''chapter_context'', c)] else [])"
  by (simp add: requestBody_def truthy_def)

lemma getProperty_total:
  "data \<noteq> Undefined \<Longrightarrow> data \<noteq> Null \<Longrightarrow> \<exists>v. getProperty data k = Inr v"
  by (cases data) (auto split: option.splits)

lemma exampleState_not_blank: "\<exists>c\<in>set (inputValue exampleState). \<not> isWhiteSpace c"
  by (simp add: exampleState_def str_def isWhiteSpace_def)

subsection \<open>Reading back what JSON.stringify writes\<close>

lemma consChar_Some:
  "consChar x r = Some (s, rest) \<longleftrightarrow> (\<exists>s'. r = Some (s', rest) \<and> s = x # s')"
  by (cases r) (auto simp add: consChar_def)

lemma hexValue_hexDigit: "d < 16 \<Longrightarrow> hexValue (hexDigit d) = Some d"
proof -
  assume "d < 16"
  then have "d = 0 \<or> d = 1 \<or> d = 2 \<or> d = 3 \<or> d = 4 \<or> d = 5 \<or> d = 6 \<or> d = 7 \<or>
      d = 8 \<or> d = 9 \<or> d = 10 \<or> d = 11 \<or> d = 12 \<or> d = 13 \<or> d = 14 \<or> d = 15"
    by arith
  then show ?thesis
    by (elim disjE) (simp_all add: hexValue_def hexDigit_def)
qed

lemma hex_digits_value:
  "n < 65536 \<Longrightarrow>
   ((n div 4096 mod 16 * 16 + n div 256 mod 16) * 16 + n div 16 mod 16) * 16 + n mod 16 = (n::nat)"
proof -
  assume "n < 65536"
  then have "n div 4096 < 16"
    by (simp add: less_mult_imp_div_less)
  then have a: "n div 4096 mod 16 = n div 256 div 16"
    by (simp add: div_mult2_eq)
  have b: "n div 256 = n div 16 div 16"
    by (simp add: div_mult2_eq)
  have "n div 256 div 16 * 16 + n div 256 mod 16 = n div 256"
    by simp
  moreover have "n div 16 div 16 * 16 + n div 16 mod 16 = n div 16"
    by simp
  moreover have "n div 16 * 16 + n mod 16 = n"
    by simp
  ultimately show ?thesis
    by (simp only: a b [symmetric])
qed

lemma unat_less_65536: "unat (c :: 16 word) < 65536"
  using unsigned_less [of c, where ?'a = nat] by simp

lemma readString_UnicodeEscape:
  "readString (UnicodeEscape c @ after) = consChar c (readString after)"
proof -
  have "of_nat (((unat c div 4096 mod 16 * 16 + unat c div 256 mod 16) * 16 +
          unat c div 16 mod 16) * 16 + unat c mod 16) = c"
    by (simp only: hex_digits_value [OF unat_less_65536] of_nat_unat ucast_id)
  then show ?thesis
    by (simp add: UnicodeEscape_def hexValue_hexDigit del: of_nat_add of_nat_mult)
qed

lemma surrogate_is_plain:
  "isLeadingSurrogate c \<or> isTrailingSurrogate c \<Longrightarrow> c \<noteq> 0x22 \<and> c \<noteq> 0x5C \<and> \<not> c < 0x20"
  by (auto simp add: isLeadingSurrogate_def isTrailingSurrogate_def word_le_nat_alt
      word_less_nat_alt)

lemma readString_quoteChars: "readString (quoteChars s @ 0x22 # rest) = Some (s, rest)"
proof (induction "length s" arbitrary: s rule: less_induct)
  case less
  show ?case
  proof (cases s)
    case Nil
    then show ?thesis by simp
  next
    case (Cons c cs)
    have IH: "readString (quoteChars cs @ 0x22 # rest) = Some (cs, rest)"
      using less.hyps [of cs] Cons by simp
    consider
        (short) "c = 0x08 \<or> c = 0x09 \<or> c = 0x0A \<or> c = 0x0C \<or> c = 0x0D \<or> c = 0x22 \<or> c = 0x5C"
      | (control) "c \<noteq> 0x08" "c \<noteq> 0x09" "c \<noteq> 0x0A" "c \<noteq> 0x0C" "c \<noteq> 0x0D" "c \<noteq> 0x22"
          "c \<noteq> 0x5C" "c < 0x20"
      | (lead) "\<not> c < 0x20" "isLeadingSurrogate c"
      | (trail) "\<not> c < 0x20" "\<not> isLeadingSurrogate c" "isTrailingSurrogate c"
      | (plain) "c \<noteq> 0x22" "c \<noteq> 0x5C" "\<not> c < 0x20" "\<not> isLeadingSurrogate c"
          "\<not> isTrailingSurrogate c"
      using surrogate_is_plain [of c] by (cases "c < 0x20") auto
    then show ?thesis
    proof cases
      case short
      then show ?thesis
        using IH Cons by (elim disjE) (simp_all add: consChar_def escapedChar_def)
    next
      case control
      then have "quoteChars (c # cs) = UnicodeEscape c @ quoteChars cs"
        by simp
      then show ?thesis
        using IH Cons by (simp add: readString_UnicodeEscape consChar_def)
    next
      case lead
      note plain_c = surrogate_is_plain [of c]
      show ?thesis
      proof (cases cs)
        case Nil
        with lead plain_c have "quoteChars (c # cs) = UnicodeEscape c"
          by auto
        with Nil Cons show ?thesis
          using readString_UnicodeEscape [of c "0x22 # rest"] by (simp add: consChar_def)
      next
        case (Cons d ds)
        show ?thesis
        proof (cases "isTrailingSurrogate d")
          case True
          with lead plain_c Cons have q: "quoteChars (c # cs) = c # d # quoteChars ds"
            by auto
          have "readString (quoteChars ds @ 0x22 # rest) = Some (ds, rest)"
            using less.hyps [of ds] Cons \<open>s = c # cs\<close> by simp
          then show ?thesis
            using q lead plain_c surrogate_is_plain [of d] True Cons \<open>s = c # cs\<close>
            by (simp add: consChar_def del: quoteChars.simps)
        next
          case False
          with lead plain_c Cons have "quoteChars (c # cs) = UnicodeEscape c @ quoteChars cs"
            by auto
          then show ?thesis
            using IH \<open>s = c # cs\<close> by (simp add: readString_UnicodeEscape consChar_def)
        qed
      qed
    next
      case trail
      with surrogate_is_plain [of c]
      have "quoteChars (c # cs) = UnicodeEscape c @ quoteChars cs"
        by auto
      then show ?thesis
        using IH Cons by (simp add: readString_UnicodeEscape consChar_def)
    next
      case plain
      then have "c \<noteq> 0x08" "c \<noteq> 0x09" "c \<noteq> 0x0A" "c \<noteq> 0x0C" "c \<noteq> 0x0D"
        by auto
      with plain have "quoteChars (c # cs) = c # quoteChars cs"
        by simp
      then show ?thesis
        using IH Cons plain by (simp add: consChar_def del: quoteChars.simps)
    qed
  qed
qed

lemma parseMembers_member:
  "parseMembers (QuoteJSONString k @ [0x3A] @ QuoteJSONString v @ d # after) =
     (if d = 0x7D then (if after = [] then Some [(k, v)] else None)
      else if d = 0x2C then
        (case parseMembers after of None \<Rightarrow> None | Some ms \<Rightarrow> Some ((k, v) # ms))
      else None)"
  by (subst parseMembers.simps) (simp add: QuoteJSONString_def readString_quoteChars)

lemma joinComma_Cons: "ms \<noteq> [] \<Longrightarrow> joinComma (m # ms) = m @ [0x2C] @ joinComma ms"
  by (cases ms) simp_all

lemma parseMembers_joinComma:
  "ms \<noteq> [] \<Longrightarrow>
   parseMembers
     (joinComma (map (\<lambda>(k, v). QuoteJSONString k @ [0x3A] @ QuoteJSONString v) ms) @ [0x7D]) =
   Some ms"
proof (induction ms rule: list_nonempty_induct)
  case (single m)
  obtain k v where "m = (k, v)" by (cases m)
  then show ?case
    using parseMembers_member [of k v "0x7D" "[]"] by simp
next
  case (cons m ms)
  obtain k v where m: "m = (k, v)" by (cases m)
  have "joinComma (map (\<lambda>(k, v). QuoteJSONString k @ [0x3A] @ QuoteJSONString v) (m # ms)) @ [0x7D] =
      QuoteJSONString k @ [0x3A] @ QuoteJSONString v @ 0x2C #
        (joinComma (map (\<lambda>(k, v). QuoteJSONString k @ [0x3A] @ QuoteJSONString v) ms) @ [0x7D])"
    using cons.hyps m by (simp add: joinComma_Cons)
  then show ?case
    using cons.IH m by (simp only: parseMembers_member) simp
qed

text \<open>
  Reading the text that \<open>JSON.stringify\<close> writes gives back the members with a defined
  value, whatever characters the strings hold (quotes, control characters, surrogates).
\<close>

lemma JSON_parse_object_stringify:
  "JSON_parse_object (JSON_stringify obj) = Some (jsonMembers obj)"
proof (cases "jsonMembers obj")
  case Nil
  then show ?thesis
    by (simp add: JSON_parse_object_def JSON_stringify_def)
next
  case (Cons m ms)
  obtain k v where m: "m = (k, v)" by (cases m)
  let ?text = "joinComma (map (\<lambda>(k, v). QuoteJSONString k @ [0x3A] @ QuoteJSONString v)
      (jsonMembers obj)) @ [0x7D]"
  have "hd ?text = 0x22"
    using Cons m by (cases ms) (simp_all add: QuoteJSONString_def)
  then have "?text \<noteq> [0x7D]"
    by auto
  moreover have "parseMembers ?text = Some (jsonMembers obj)"
    using Cons by (simp only: parseMembers_joinComma list.distinct not_False_eq_True)
  ultimately show ?thesis
    by (simp add: JSON_parse_object_def JSON_stringify_def)
qed

section \<open>sendMessage: the guard\<close>

lemma before_await_blocked:
  "(\<forall>c\<in>set (inputValue s). isWhiteSpace c) \<or> isLoading s \<Longrightarrow>
   sendMessage_before_await env t s = (s, None)"
  using guard_blank_iff [of s] by (auto simp add: sendMessage_before_await_def)

lemma before_await_sends:
  "\<exists>c\<in>set (inputValue s). \<not> isWhiteSpace c \<Longrightarrow> \<not> isLoading s \<Longrightarrow>
   sendMessage_before_await env t s =
     (s\<lparr>messages := messages s @ [userMessage t (inputValue s)], inputValue := [],
        isLoading := True\<rparr>,
      Some (chatRequest env s))"
  using guard_blank_iff [of s] by (auto simp add: sendMessage_before_await_def)

lemma sendDisabled_blocks:
  "sendDisabled s \<Longrightarrow> sendMessage_before_await env t s = (s, None)"
  by (simp add: sendDisabled_def sendMessage_before_await_def)

lemma sendMessage_passes:
  "\<exists>c\<in>set (inputValue s). \<not> isWhiteSpace c \<Longrightarrow> \<not> isLoading s \<Longrightarrow>
   sendMessage env t1 outcome t2 s =
     (fst (sendMessage_after_await outcome t2
        (s\<lparr>messages := messages s @ [userMessage t1 (inputValue s)], inputValue := [],
           isLoading := True\<rparr>)),
      Some (chatRequest env s),
      snd (sendMessage_after_await outcome t2
        (s\<lparr>messages := messages s @ [userMessage t1 (inputValue s)], inputValue := [],
           isLoading := True\<rparr>)))"
  by (simp add: sendMessage_def before_await_sends split: prod.splits)

subsection \<open>Requests in flight\<close>


lemma callSendMessage_latest:
  "closure sys = widget sys \<Longrightarrow>
   callSendMessage env t sys =
     (case sendMessage_before_await env t (widget sys) of
        (s1, None) \<Rightarrow> sys\<lparr>widget := s1\<rparr>
      | (s1, Some r) \<Rightarrow> sys\<lparr>widget := s1, in_flight := in_flight sys @ [r]\<rparr>)"
  by (simp add: callSendMessage_def sendMessage_before_await_def)

lemma pageContextEffect_isLoading: "isLoading (pageContextEffect p s) = isLoading s"
  by (simp add: pageContextEffect_def Let_def)



lemma after_await_isLoading: "\<not> isLoading (fst (sendMessage_after_await outcome t s))"
  by (simp add: sendMessage_after_await_def split: sum.splits)









section \<open>sendMessage: the request\<close>

text \<open>
  Claim C2. Every send of a question with a non-blank input (a call of \<open>sendMessage\<close>
  that passes the guard) issues exactly one request: a POST to the /chat path of the API
  base URL whose body is the JSON text of an object with the member \<open>question\<close> equal
  to the submitted input, the member \<open>module_context\<close> exactly when the current module
  is not empty, the member \<open>chapter_context\<close> exactly when the current chapter is not
  empty, and no other member. The last conjunct is about the text itself: read as JSON,
  the body has exactly these members with these values.
\<close>

theorem sendMessage_posts_question:
  assumes "\<exists>c\<in>set (inputValue s). \<not> isWhiteSpace c" and "\<not> isLoading s"
  shows "fst (snd (sendMessage env t1 outcome t2 s)) = Some (chatRequest env s) \<and>
         http_method (chatRequest env s) = str ''POST'' \<and>
         url (chatRequest env s) = API_BASE_URL env @ str ''/chat'' \<and>
         body (chatRequest env s) =
           JSON_stringify (requestBody (inputValue s) (currentModule s) (currentChapter s)) \<and>
         jsonMembers (requestBody (inputValue s) (currentModule s) (currentChapter s)) =
           [(str ''question'', inputValue s)] @
           (if currentModule s \<noteq> [] then [(str ''module_context'', currentModule s)] else []) @
           (if currentChapter s \<noteq> [] then [(str ''chapter_context'', currentChapter s)] else []) \<and>
         (str ''module_context'' \<in>
            fst ` set (jsonMembers (requestBody (inputValue s) (currentModule s) (currentChapter s)))
          \<longleftrightarrow> currentModule s \<noteq> []) \<and>
         (str ''chapter_context'' \<in>
            fst ` set (jsonMembers (requestBody (inputValue s) (currentModule s) (currentChapter s)))
          \<longleftrightarrow> currentChapter s \<noteq> []) \<and>
         JSON_parse_object (body (chatRequest env s)) =
           Some ([(str ''question'', inputValue s)] @
                 (if currentModule s \<noteq> [] then [(str ''module_context'', currentModule s)] else []) @
                 (if currentChapter s \<noteq> [] then [(str ''chapter_context'', currentChapter s)] else []))"
proof -
  have "JSON_parse_object (body (chatRequest env s)) =
           Some ([(str ''question'', inputValue s)] @
                 (if currentModule s \<noteq> [] then [(str ''module_context'', currentModule s)] else []) @
                 (if currentChapter s \<noteq> [] then [(str ''chapter_context'', currentChapter s)] else []))"
    by (simp only: chatRequest_def request.simps JSON_parse_object_stringify
        jsonMembers_requestBody)
  moreover
  have "fst (snd (sendMessage env t1 outcome t2 s)) = Some (chatRequest env s)"
    using assms by (simp add: sendMessage_passes)
  moreover have "http_method (chatRequest env s) = str ''POST''"
    and "url (chatRequest env s) = API_BASE_URL env @ str ''/chat''"
    and "body (chatRequest env s) =
           JSON_stringify (requestBody (inputValue s) (currentModule s) (currentChapter s))"
    by (simp_all add: chatRequest_def)
  moreover have "str ''module_context'' \<in>
            fst ` set (jsonMembers (requestBody (inputValue s) (currentModule s) (currentChapter s)))
          \<longleftrightarrow> currentModule s \<noteq> []"
    using str_keys_distinct by (auto simp add: jsonMembers_requestBody)
  moreover have "str ''chapter_context'' \<in>
            fst ` set (jsonMembers (requestBody (inputValue s) (currentModule s) (currentChapter s)))
          \<longleftrightarrow> currentChapter s \<noteq> []"
    using str_keys_distinct by (auto simp add: jsonMembers_requestBody)
  ultimately show ?thesis
    using jsonMembers_requestBody [of "inputValue s" "currentModule s" "currentChapter s"]
    by blast
qed

theorem sendMessage_posts_question_witness:
  "fst (snd (sendMessage None exampleTick (Response 200 (Some exampleData)) exampleTick
     exampleState)) = Some (chatRequest None exampleState) \<and>
   url (chatRequest None exampleState) = str ''http://localhost:8000/chat'' \<and>
   jsonMembers (requestBody (inputValue exampleState) (currentModule exampleState)
       (currentChapter exampleState)) =
     [(str ''question'', str ''What is a node?''), (str ''module_context'', str ''ros2'')] \<and>
   body (chatRequest None exampleState) =
     str ''{'' @ [0x22] @ str ''question'' @ [0x22] @ str '':'' @ [0x22] @
     str ''What is a node?'' @ [0x22] @ str '','' @ [0x22] @ str ''module_context'' @ [0x22] @
     str '':'' @ [0x22] @ str ''ros2'' @ [0x22] @ str ''}'' \<and>
   JSON_parse_object (body (chatRequest None exampleState)) =
     Some [(str ''question'', str ''What is a node?''), (str ''module_context'', str ''ros2'')]"
proof -
  have nl: "\<not> isLoading exampleState"
    by (simp add: exampleState_def)
  note th = sendMessage_posts_question [OF exampleState_not_blank nl,
        of None exampleTick "Response 200 (Some exampleData)" exampleTick]
  have fields: "inputValue exampleState = str ''What is a node?''"
    "currentModule exampleState = str ''ros2''" "currentChapter exampleState = []"
    "str ''ros2'' \<noteq> []"
    by (simp_all add: exampleState_def str_def)
  from th have 1: "fst (snd (sendMessage None exampleTick (Response 200 (Some exampleData))
     exampleTick exampleState)) = Some (chatRequest None exampleState)"
    by blast
  from th have "url (chatRequest None exampleState) = API_BASE_URL None @ str ''/chat''"
    by blast
  then have 2: "url (chatRequest None exampleState) = str ''http://localhost:8000/chat''"
    by (simp add: API_BASE_URL_def str_def)
  from th have "jsonMembers (requestBody (inputValue exampleState) (currentModule exampleState)
       (currentChapter exampleState)) =
           [(str ''question'', inputValue exampleState)] @
           (if currentModule exampleState \<noteq> []
            then [(str ''module_context'', currentModule exampleState)] else []) @
           (if currentChapter exampleState \<noteq> []
            then [(str ''chapter_context'', currentChapter exampleState)] else [])"
    by blast
  then have 3: "jsonMembers (requestBody (inputValue exampleState) (currentModule exampleState)
       (currentChapter exampleState)) =
     [(str ''question'', str ''What is a node?''), (str ''module_context'', str ''ros2'')]"
    by (simp only: fields) simp
  have 4: "body (chatRequest None exampleState) =
     str ''{'' @ [0x22] @ str ''question'' @ [0x22] @ str '':'' @ [0x22] @
     str ''What is a node?'' @ [0x22] @ str '','' @ [0x22] @ str ''module_context'' @ [0x22] @
     str '':'' @ [0x22] @ str ''ros2'' @ [0x22] @ str ''}''"
    by (simp add: chatRequest_def exampleState_def JSON_stringify_def requestBody_def
        truthy_def str_def QuoteJSONString_def isLeadingSurrogate_def isTrailingSurrogate_def)
  from th have "JSON_parse_object (body (chatRequest None exampleState)) =
           Some ([(str ''question'', inputValue exampleState)] @
                 (if currentModule exampleState \<noteq> []
                  then [(str ''module_context'', currentModule exampleState)] else []) @
                 (if currentChapter exampleState \<noteq> []
                  then [(str ''chapter_context'', currentChapter exampleState)] else []))"
    by blast
  then have 5: "JSON_parse_object (body (chatRequest None exampleState)) =
     Some [(str ''question'', str ''What is a node?''), (str ''module_context'', str ''ros2'')]"
    by (simp only: fields) simp
  from 1 2 3 4 5 show ?thesis
    by (intro conjI)
qed

text \<open>
  Claim C7. The request carries no conversation history. For two widget states with the
  same input value, current module and current chapter, whatever their message
  histories (and their other fields), the bodies of the requests that \<open>sendMessage\<close>
  issues are identical; with the same loading flag and API base URL the whole request is.
\<close>

theorem request_independent_of_history:
  assumes "inputValue s1 = inputValue s2"
      and "currentModule s1 = currentModule s2"
      and "currentChapter s1 = currentChapter s2"
  shows "(snd (sendMessage_before_await env1 t1 s1) = Some r1 \<and>
          snd (sendMessage_before_await env2 t2 s2) = Some r2 \<longrightarrow> body r1 = body r2) \<and>
         (isLoading s1 = isLoading s2 \<longrightarrow>
          snd (sendMessage_before_await env t1 s1) = snd (sendMessage_before_await env t2 s2))"
  using assms
  by (auto simp add: sendMessage_before_await_def chatRequest_def split: if_splits)

theorem request_independent_of_history_witness:
  "body (chatRequest None exampleState) =
   body (chatRequest (Some (str ''https://api.example.org''))
     (exampleState\<lparr>isOpen := False,
        messages := [userMessage exampleTick (str ''an earlier question''),
                     errorMessage exampleTick]\<rparr>))"
proof -
  let ?s2 = "exampleState\<lparr>isOpen := False,
        messages := [userMessage exampleTick (str ''an earlier question''),
                     errorMessage exampleTick]\<rparr>"
  have nb2: "\<exists>c\<in>set (inputValue ?s2). \<not> isWhiteSpace c"
    using exampleState_not_blank by simp
  have r1: "snd (sendMessage_before_await None exampleTick exampleState) =
              Some (chatRequest None exampleState)"
    using before_await_sends [OF exampleState_not_blank, of None exampleTick]
    by (simp add: exampleState_def)
  have r2: "snd (sendMessage_before_await (Some (str ''https://api.example.org'')) exampleTick ?s2) =
              Some (chatRequest (Some (str ''https://api.example.org'')) ?s2)"
    using before_await_sends [OF nb2, of "Some (str ''https://api.example.org'')" exampleTick]
    by (simp add: exampleState_def)
  have "inputValue exampleState = inputValue ?s2"
    and "currentModule exampleState = currentModule ?s2"
    and "currentChapter exampleState = currentChapter ?s2"
    by simp_all
  from request_independent_of_history [OF this,
      of None exampleTick "chatRequest None exampleState"
         "Some (str ''https://api.example.org'')" exampleTick
         "chatRequest (Some (str ''https://api.example.org'')) ?s2" None] r1 r2
  show ?thesis by blast
qed


section \<open>sendMessage: after the response\<close>

lemma tryBlock_failure:
  "outcome = Rejected \<or>
   (\<exists>status json. outcome = Response status json \<and>
      (status < 200 \<or> 299 < status \<or> json = None)) \<Longrightarrow>
   \<exists>e. tryBlock outcome t = Inl e"
  by (auto simp add: tryBlock_def response_ok_def)

lemma after_await_failure:
  "tryBlock outcome t = Inl e \<Longrightarrow>
   sendMessage_after_await outcome t s =
     (s\<lparr>messages := messages s @ [errorMessage t], isLoading := False\<rparr>, [e])"
  by (simp add: sendMessage_after_await_def)

lemma null_body_is_an_error:
  "tryBlock (Response 200 (Some Null)) t = Inl TypeError"
  by (simp add: tryBlock_def response_ok_def botMessage_def)

text \<open>
  Claim C3. When the response has a status outside 200..299, when the \<open>fetch\<close> fails
  (network) or when the body cannot be parsed, the widget appends exactly one bot message
  with the fixed text "Sorry, I encountered an error processing your question. Please try
  again.", marked as an error, and clears the loading flag. The resulting state is the
  same whatever the status and the body of the response are: nothing of the body is read.
\<close>

theorem sendMessage_failure_generic_error:
  fixes s s0 :: "'n state"
  assumes "outcome = Rejected \<or>
     (\<exists>status json. outcome = Response status json \<and>
        (status < 200 \<or> 299 < status \<or> json = None))"
  shows "fst (sendMessage_after_await outcome t s) =
           s\<lparr>messages := messages s @ [errorMessage t], isLoading := False\<rparr> \<and>
         ((\<exists>c\<in>set (inputValue s0). \<not> isWhiteSpace c) \<and> \<not> isLoading s0 \<longrightarrow>
            fst (sendMessage env t1 outcome t s0) =
              s0\<lparr>messages := messages s0 @ [userMessage t1 (inputValue s0), errorMessage t],
                 inputValue := [], isLoading := False\<rparr>) \<and>
         msg_text (errorMessage t :: 'n message) =
           String (str ''Sorry, I encountered an error processing your question. Please try again.'') \<and>
         sender (errorMessage t :: 'n message) = str ''bot'' \<and>
         isError (errorMessage t :: 'n message)"
proof -
  obtain e where e: "tryBlock outcome t = Inl e"
    using tryBlock_failure [OF assms] by blast
  have "fst (sendMessage_after_await outcome t s) =
           s\<lparr>messages := messages s @ [errorMessage t], isLoading := False\<rparr>"
    using e by (simp add: after_await_failure)
  moreover have "(\<exists>c\<in>set (inputValue s0). \<not> isWhiteSpace c) \<and> \<not> isLoading s0 \<longrightarrow>
            fst (sendMessage env t1 outcome t s0) =
              s0\<lparr>messages := messages s0 @ [userMessage t1 (inputValue s0), errorMessage t],
                 inputValue := [], isLoading := False\<rparr>"
    using e by (simp add: sendMessage_passes after_await_failure)
  ultimately show ?thesis
    by (simp add: errorMessage_def)
qed

theorem sendMessage_failure_generic_error_witness:
  "fst (sendMessage None exampleTick (Response 500 (Some exampleData)) exampleTick exampleState) =
     exampleState\<lparr>messages := [userMessage exampleTick (str ''What is a node?''),
                                errorMessage exampleTick],
                  inputValue := [], isLoading := False\<rparr> \<and>
   fst (sendMessage None exampleTick (Rejected :: int fetch_outcome) exampleTick exampleState) =
     exampleState\<lparr>messages := [userMessage exampleTick (str ''What is a node?''),
                                errorMessage exampleTick],
                  inputValue := [], isLoading := False\<rparr>"
proof -
  have nl: "\<not> isLoading exampleState"
    by (simp add: exampleState_def)
  have a: "Response 500 (Some exampleData) = Rejected \<or>
     (\<exists>status json. Response 500 (Some exampleData) = Response status json \<and>
        (status < 200 \<or> 299 < status \<or> json = None))"
    by simp
  have b: "(Rejected :: int fetch_outcome) = Rejected \<or>
     (\<exists>status json. (Rejected :: int fetch_outcome) = Response status json \<and>
        (status < 200 \<or> 299 < status \<or> json = None))"
    by simp
  from exampleState_not_blank nl
       sendMessage_failure_generic_error [OF a, of exampleTick exampleState exampleState None exampleTick]
       sendMessage_failure_generic_error [OF b, of exampleTick exampleState exampleState None exampleTick]
  show ?thesis
    by (simp add: exampleState_def)
qed

text \<open>
  Claim C6. For a response with status 200 (any status in 200..299) whose body is JSON
  (any value but \<open>null\<close>), the bot message that the widget appends holds the values of
  the properties \<open>answer\<close>, \<open>sources\<close> and \<open>confidence\<close> of the response as they
  are, in its \<open>text\<close>, \<open>sources\<close> and \<open>confidence\<close>.
\<close>

theorem sendMessage_success_verbatim:
  assumes "200 \<le> status" and "status \<le> 299"
      and "data \<noteq> Null" and "data \<noteq> Undefined"
  shows "\<exists>a srcs c.
           getProperty data (str ''answer'') = Inr a \<and>
           getProperty data (str ''sources'') = Inr srcs \<and>
           getProperty data (str ''confidence'') = Inr c \<and>
           fst (sendMessage_after_await (Response status (Some data)) t s) =
             s\<lparr>messages := messages s @
                  [\<lparr>msg_id = date_now t + 1, msg_text = a, sender = str ''bot'',
                    sources = srcs, confidence = c, isError = False,
                    timestamp = date_iso t\<rparr>],
               isLoading := False\<rparr> \<and>
           ((\<exists>c\<in>set (inputValue s0). \<not> isWhiteSpace c) \<and> \<not> isLoading s0 \<longrightarrow>
            fst (sendMessage env t1 (Response status (Some data)) t s0) =
              s0\<lparr>messages := messages s0 @
                   [userMessage t1 (inputValue s0),
                    \<lparr>msg_id = date_now t + 1, msg_text = a, sender = str ''bot'',
                     sources = srcs, confidence = c, isError = False,
                     timestamp = date_iso t\<rparr>],
                 inputValue := [], isLoading := False\<rparr>)"
proof -
  obtain a where a: "getProperty data (str ''answer'') = Inr a"
    using getProperty_total [OF assms(4) assms(3)] by blast
  obtain srcs where srcs: "getProperty data (str ''sources'') = Inr srcs"
    using getProperty_total [OF assms(4) assms(3)] by blast
  obtain c where c: "getProperty data (str ''confidence'') = Inr c"
    using getProperty_total [OF assms(4) assms(3)] by blast
  have after: "sendMessage_after_await (Response status (Some data)) t s' =
      (s'\<lparr>messages := messages s' @
                  [\<lparr>msg_id = date_now t + 1, msg_text = a, sender = str ''bot'',
                    sources = srcs, confidence = c, isError = False,
                    timestamp = date_iso t\<rparr>],
               isLoading := False\<rparr>, [])" for s' :: "'a state"
    using assms(1,2) a srcs c
    by (simp add: sendMessage_after_await_def tryBlock_def response_ok_def botMessage_def)
  show ?thesis
    using a srcs c by (simp add: after sendMessage_passes)
qed

theorem sendMessage_success_verbatim_witness:
  "fst (sendMessage None exampleTick (Response 200 (Some exampleData)) exampleTick exampleState) =
     exampleState\<lparr>messages :=
        [userMessage exampleTick (str ''What is a node?''),
         \<lparr>msg_id = 1700000000001, msg_text = String (str ''A node is a process.''),
          sender = str ''bot'', sources = Array [String (str ''ros2/intro#0'')],
          confidence = Number 1, isError = False,
          timestamp = str ''2023-11-14T22:13:20.000Z''\<rparr>],
        inputValue := [], isLoading := False\<rparr>"
proof -
  have nl: "\<not> isLoading exampleState"
    by (simp add: exampleState_def)
  have d: "exampleData \<noteq> Null" "exampleData \<noteq> Undefined"
    by (simp_all add: exampleData_def)
  have g: "getProperty exampleData (str ''answer'') = Inr (String (str ''A node is a process.''))"
    "getProperty exampleData (str ''sources'') = Inr (Array [String (str ''ros2/intro#0'')])"
    "getProperty exampleData (str ''confidence'') = Inr (Number 1)"
    by (simp_all add: exampleData_def str_def)
  have "(200::nat) \<le> 200" and "(200::nat) \<le> 299"
    by simp_all
  from exampleState_not_blank nl g
       sendMessage_success_verbatim [OF this d, of exampleTick exampleState exampleState None exampleTick]
  show ?thesis
    by (auto simp add: exampleState_def exampleTick_def)
qed

section \<open>The two widgets\<close>

text \<open>
  Claim C9. The \<open>sendMessage\<close> of the RAGChatbot component and the one of the
  ChatbotWidget component are the same function: the same guard, request URL and body,
  the same bot message on success and the same error message on failure.
\<close>

theorem RAGChatbot_sendMessage_equivalent:
  "(RAGChatbot_sendMessage_before_await ::
      jsstring option \<Rightarrow> tick \<Rightarrow> 'n state \<Rightarrow> 'n state \<times> request option) =
     sendMessage_before_await \<and>
   (RAGChatbot_sendMessage_after_await ::
      'n fetch_outcome \<Rightarrow> tick \<Rightarrow> 'n state \<Rightarrow> 'n state \<times> js_error list) =
     sendMessage_after_await \<and>
   (RAGChatbot_sendMessage ::
      jsstring option \<Rightarrow> tick \<Rightarrow> 'n fetch_outcome \<Rightarrow> tick \<Rightarrow> 'n state \<Rightarrow>
      'n state \<times> request option \<times> js_error list) = sendMessage"
proof -
  have base: "RAGChatbot_API_BASE_URL = API_BASE_URL"
    by (rule ext) (simp add: RAGChatbot_API_BASE_URL_def API_BASE_URL_def)
  have before: "(RAGChatbot_sendMessage_before_await ::
      jsstring option \<Rightarrow> tick \<Rightarrow> 'n state \<Rightarrow> 'n state \<times> request option) =
     sendMessage_before_await"
    by (intro ext)
       (simp add: RAGChatbot_sendMessage_before_await_def sendMessage_before_await_def
          chatRequest_def requestBody_def userMessage_def base Let_def)
  have tb: "(RAGChatbot_tryBlock :: 'n fetch_outcome \<Rightarrow> tick \<Rightarrow> js_error + 'n message) = tryBlock"
    by (intro ext)
       (simp add: RAGChatbot_tryBlock_def tryBlock_def botMessage_def
          split: fetch_outcome.splits option.splits)
  have after: "(RAGChatbot_sendMessage_after_await ::
      'n fetch_outcome \<Rightarrow> tick \<Rightarrow> 'n state \<Rightarrow> 'n state \<times> js_error list) =
     sendMessage_after_await"
    by (intro ext)
       (simp add: RAGChatbot_sendMessage_after_await_def sendMessage_after_await_def
          errorMessage_def tb Let_def split: sum.splits)
  have whole: "(RAGChatbot_sendMessage ::
      jsstring option \<Rightarrow> tick \<Rightarrow> 'n fetch_outcome \<Rightarrow> tick \<Rightarrow> 'n state \<Rightarrow>
      'n state \<times> request option \<times> js_error list) = sendMessage"
    unfolding RAGChatbot_sendMessage_def sendMessage_def before after by (rule refl)
  from before after whole show ?thesis by simp
qed

theorem RAGChatbot_sendMessage_equivalent_witness:
  "RAGChatbot_sendMessage None exampleTick (Response 200 (Some exampleData)) exampleTick
     exampleState =
   sendMessage None exampleTick (Response 200 (Some exampleData)) exampleTick exampleState \<and>
   fst (snd (RAGChatbot_sendMessage None exampleTick (Response 200 (Some exampleData))
     exampleTick exampleState)) = Some (chatRequest None exampleState) \<and>
   RAGChatbot_sendMessage None exampleTick (Response 503 None) exampleTick
     (exampleState\<lparr>isLoading := True\<rparr>) =
     (exampleState\<lparr>isLoading := True\<rparr>, None, [])"
proof -
  have nl: "\<not> isLoading exampleState"
    by (simp add: exampleState_def)
  have eq: "(RAGChatbot_sendMessage ::
      jsstring option \<Rightarrow> tick \<Rightarrow> int fetch_outcome \<Rightarrow> tick \<Rightarrow> int state \<Rightarrow>
      int state \<times> request option \<times> js_error list) = sendMessage"
    using RAGChatbot_sendMessage_equivalent [where ?'n = int] by blast
  have "isLoading (exampleState\<lparr>isLoading := True\<rparr>)"
    by simp
  then have blocked: "sendMessage None exampleTick (Response 503 None) exampleTick
     (exampleState\<lparr>isLoading := True\<rparr>) = (exampleState\<lparr>isLoading := True\<rparr>, None, [])"
    by (simp add: sendMessage_def before_await_blocked)
  show ?thesis
    unfolding eq using blocked
    by (simp add: sendMessage_passes [OF exampleState_not_blank nl])
qed


section \<open>Page context\<close>

lemma pageContextEffect_initial:
  "currentModule (pageContextEffect p (initialState :: 'n state)) =
     (if 3 \<le> length (split 0x2F p) \<and> split 0x2F p ! 2 \<noteq> str ''modules''
      then split 0x2F p ! 2 else [])"
  "currentChapter (pageContextEffect p (initialState :: 'n state)) =
     (if 4 \<le> length (split 0x2F p) then split 0x2F p ! 3 else [])"
  by (simp_all add: pageContextEffect_def initialState_def Let_def)

lemma before_await_context:
  "currentModule (fst (sendMessage_before_await env t s)) = currentModule s"
  "currentChapter (fst (sendMessage_before_await env t s)) = currentChapter s"
  by (simp_all add: sendMessage_before_await_def)

lemma after_await_context:
  "currentModule (fst (sendMessage_after_await outcome t s)) = currentModule s"
  "currentChapter (fst (sendMessage_after_await outcome t s)) = currentChapter s"
  by (simp_all add: sendMessage_after_await_def split: sum.splits)

lemma callSendMessage_context:
  "currentModule (widget (callSendMessage env t sys)) = currentModule (widget sys)"
  "currentChapter (widget (callSendMessage env t sys)) = currentChapter (widget sys)"
  by (simp_all add: callSendMessage_def)

lemma settle_context:
  "currentModule (widget (settle i outcome t sys)) = currentModule (widget sys)"
  "currentChapter (widget (settle i outcome t sys)) = currentChapter (widget sys)"
  by (simp_all add: settle_def after_await_context)

lemma handle_context:
  "currentModule (widget (handle env sys e)) = currentModule (widget sys)"
  "currentChapter (widget (handle env sys e)) = currentChapter (widget sys)"
proof -
  show "currentModule (widget (handle env sys e)) = currentModule (widget sys)"
    by (cases e)
       (simp_all add: callSendMessage_context handleKeyPress_def toggleChatbot_def
          settle_context)
  show "currentChapter (widget (handle env sys e)) = currentChapter (widget sys)"
    by (cases e)
       (simp_all add: callSendMessage_context handleKeyPress_def toggleChatbot_def
          settle_context)
qed

lemma foldl_context:
  "currentModule (widget (foldl (handle env) sys evs)) = currentModule (widget sys)"
  "currentChapter (widget (foldl (handle env) sys evs)) = currentChapter (widget sys)"
  by (induction evs arbitrary: sys) (simp_all add: handle_context)

lemma run_context:
  "currentModule (widget (run env p evs :: 'n system)) =
     currentModule (pageContextEffect p (initialState :: 'n state))"
  "currentChapter (widget (run env p evs :: 'n system)) =
     currentChapter (pageContextEffect p (initialState :: 'n state))"
  by (simp_all add: run_def foldl_context mounted_def)

text \<open>
  Claim C10. Let the pathname of the page split on \<open>/\<close> into \<open>parts\<close>, and let \<open>s\<close>
  be any state the widget mounted on that page reaches. With at least three parts, the
  current module is the third part when that part is not empty and is not the string
  \<open>modules\<close>, and otherwise \<open>module_context\<close> is left out of the request; with at least
  four parts the current chapter is the fourth part (and \<open>chapter_context\<close> is left
  out with fewer than four); with fewer than three parts both \<open>module_context\<close> and
  \<open>chapter_context\<close> are left out of the request.
\<close>

theorem page_context_from_pathname:
  fixes s :: "'n state"
  assumes "parts = split 0x2F pathname"
      and "s = widget (run env pathname evs)"
      and "members = jsonMembers (requestBody q (currentModule s) (currentChapter s))"
  shows "(3 \<le> length parts \<and> parts ! 2 \<noteq> [] \<and> parts ! 2 \<noteq> str ''modules'' \<longrightarrow>
            currentModule s = parts ! 2 \<and>
            map_of members (str ''module_context'') = Some (parts ! 2)) \<and>
         (3 \<le> length parts \<and> (parts ! 2 = [] \<or> parts ! 2 = str ''modules'') \<longrightarrow>
            map_of members (str ''module_context'') = None) \<and>
         (4 \<le> length parts \<longrightarrow> currentChapter s = parts ! 3) \<and>
         (4 \<le> length parts \<and> parts ! 3 \<noteq> [] \<longrightarrow>
            map_of members (str ''chapter_context'') = Some (parts ! 3)) \<and>
         (length parts < 4 \<longrightarrow> map_of members (str ''chapter_context'') = None) \<and>
         (length parts < 3 \<longrightarrow>
            map_of members (str ''module_context'') = None \<and>
            map_of members (str ''chapter_context'') = None)"
proof -
  have m: "currentModule s =
      (if 3 \<le> length parts \<and> parts ! 2 \<noteq> str ''modules'' then parts ! 2 else [])"
    using assms(1,2) by (simp add: run_context pageContextEffect_initial)
  have c: "currentChapter s = (if 4 \<le> length parts then parts ! 3 else [])"
    using assms(1,2) by (simp add: run_context pageContextEffect_initial)
  show ?thesis
    unfolding assms(3) jsonMembers_requestBody m c
    using str_keys_distinct by auto
qed

theorem page_context_from_pathname_witness:
  "currentModule (widget (run None (str ''/modules/ros2/intro'')
      [SendClicked exampleTick] :: int system)) = str ''ros2'' \<and>
   currentChapter (widget (run None (str ''/modules/ros2/intro'')
      [SendClicked exampleTick] :: int system)) = str ''intro'' \<and>
   map_of (jsonMembers (requestBody (str ''hi'')
      (currentModule (widget (run None (str ''/docs/modules/ros2'') [] :: int system)))
      (currentChapter (widget (run None (str ''/docs/modules/ros2'') [] :: int system)))))
      (str ''module_context'') = None \<and>
   map_of (jsonMembers (requestBody (str ''hi'')
      (currentModule (widget (run None (str ''/intro'') [] :: int system)))
      (currentChapter (widget (run None (str ''/intro'') [] :: int system)))))
      (str ''chapter_context'') = None"
proof -
  have p1: "split 0x2F (str ''/modules/ros2/intro'') =
      [[], str ''modules'', str ''ros2'', str ''intro'']"
    by (simp add: str_def)
  have p2: "split 0x2F (str ''/docs/modules/ros2'') = [[], str ''docs'', str ''modules'', str ''ros2'']"
    by (simp add: str_def)
  have p3: "split 0x2F (str ''/intro'') = [[], str ''intro'']"
    by (simp add: str_def)
  have ne: "str ''ros2'' \<noteq> []" "str ''ros2'' \<noteq> str ''modules''"
    by (simp_all add: str_def)
  from page_context_from_pathname [where ?'n = int, OF p1 [symmetric] refl refl, of None "[SendClicked exampleTick]" "str ''hi''"] ne
  have a: "currentModule (widget (run None (str ''/modules/ros2/intro'')
      [SendClicked exampleTick] :: int system)) = str ''ros2'' \<and>
   currentChapter (widget (run None (str ''/modules/ros2/intro'')
      [SendClicked exampleTick] :: int system)) = str ''intro''"
    by simp
  from page_context_from_pathname [where ?'n = int, OF p2 [symmetric] refl refl, of None "[]" "str ''hi''"]
  have b: "map_of (jsonMembers (requestBody (str ''hi'')
      (currentModule (widget (run None (str ''/docs/modules/ros2'') [] :: int system)))
      (currentChapter (widget (run None (str ''/docs/modules/ros2'') [] :: int system)))))
      (str ''module_context'') = None"
    by auto
  from page_context_from_pathname [where ?'n = int, OF p3 [symmetric] refl refl, of None "[]" "str ''hi''"]
  have c: "map_of (jsonMembers (requestBody (str ''hi'')
      (currentModule (widget (run None (str ''/intro'') [] :: int system)))
      (currentChapter (widget (run None (str ''/intro'') [] :: int system)))))
      (str ''chapter_context'') = None"
    by auto
  from a b c show ?thesis by blast
qed


section \<open>The retrieval service\<close>

lemma set_place: "set (place e xs) = insert e (set xs)"
  by (induction xs) auto

lemma set_ranked: "set (ranked es) = set es"
  by (induction es) (simp_all add: set_place)

lemma ranksBefore_total: "\<not> ranksBefore a b \<Longrightarrow> ranksBefore b a"
  by (auto simp add: ranksBefore_def)

lemma ranksBefore_trans: "ranksBefore a b \<Longrightarrow> ranksBefore b c \<Longrightarrow> ranksBefore a c"
  by (auto simp add: ranksBefore_def)

lemma sorted_place:
  "sorted_wrt ranksBefore xs \<Longrightarrow> sorted_wrt ranksBefore (place e xs)"
proof (induction xs)
  case Nil
  then show ?case by simp
next
  case (Cons x xs)
  show ?case
  proof (cases "ranksBefore e x")
    case True
    then have "\<forall>y\<in>set xs. ranksBefore e y"
      using Cons.prems ranksBefore_trans by fastforce
    with True Cons.prems show ?thesis by simp
  next
    case False
    then have "ranksBefore x e" by (rule ranksBefore_total)
    with False Cons show ?thesis by (auto simp add: set_place)
  qed
qed

lemma sorted_ranked: "sorted_wrt ranksBefore (ranked es)"
  by (induction es) (simp_all add: sorted_place)

lemma sorted_retrieve: "sorted_wrt ranksBefore (retrieve cfg corpus q)"
  by (simp add: retrieve_def sorted_wrt_take sorted_ranked)

lemma retrieve_subset:
  assumes "(c, s) \<in> set (retrieve cfg corpus q)"
  shows "c \<in> set corpus \<and> in_scope q c \<and> s = score cfg q c \<and> min_similarity cfg \<le> s"
proof -
  from assms have "(c, s) \<in> set (ranked (filter (\<lambda>(c, s). min_similarity cfg \<le> s)
             (map (\<lambda>c. (c, score cfg q c)) (filter (in_scope q) corpus))))"
    unfolding retrieve_def by (rule in_set_takeD)
  then show ?thesis by (auto simp add: set_ranked)
qed

lemma retrieve_Nil:
  assumes "\<forall>c\<in>set corpus. in_scope q c \<longrightarrow> score cfg q c < min_similarity cfg"
  shows "retrieve cfg corpus q = []"
proof (rule ccontr)
  assume "retrieve cfg corpus q \<noteq> []"
  then obtain c s where "(c, s) \<in> set (retrieve cfg corpus q)"
    by (cases "retrieve cfg corpus q") auto
  then have "c \<in> set corpus" "in_scope q c" "min_similarity cfg \<le> score cfg q c"
    using retrieve_subset by blast+
  with assms show False by fastforce
qed

lemma set_dedup: "set (dedup xs) = set xs"
  by (simp add: dedup_def)

lemma synthesize_sources:
  assumes "synthesize cfg q result = (Inr ans, calls)"
  shows "set (answer_sources ans) \<subseteq> set (map (chunk_id \<circ> fst) result)"
proof (cases result)
  case Nil
  with assms have "ans = refusal"
    by (simp add: synthesize_def)
  then show ?thesis by (simp add: refusal_def)
next
  case (Cons best rest)
  show ?thesis
  proof (cases "generate cfg (question_text q) (map (raw_text \<circ> fst) result)")
    case None
    with Cons assms show ?thesis
      by (simp add: synthesize_def Let_def)
  next
    case (Some reply)
    with Cons assms have "answer_sources ans = dedup (map (chunk_id \<circ> fst) result)"
      by (auto simp add: synthesize_def Let_def)
    then show ?thesis by (simp only: set_dedup subset_refl)
  qed
qed

lemma retrieve_prefilter:
  assumes "module_filter q = Some m"
  shows "retrieve cfg corpus q =
         retrieve cfg (filter (\<lambda>c. module_tag c = m) corpus) (q\<lparr>module_filter := None\<rparr>)"
proof -
  have "filter (in_scope q) corpus =
        filter (in_scope (q\<lparr>module_filter := None\<rparr>)) (filter (\<lambda>c. module_tag c = m) corpus)"
    using assms by (auto simp add: in_scope_def intro: filter_cong)
  then show ?thesis
    by (simp add: retrieve_def score_def)
qed

lemma example_retrieve:
  "retrieve exampleSettings exampleCorpus (exampleQuery None) =
     [(exampleCorpus ! 2, 9 / 10), (exampleCorpus ! 0, 9 / 10)]"
  "retrieve exampleSettings exampleCorpus (exampleQuery (Some ''ros2'')) =
     [(exampleCorpus ! 2, 9 / 10), (exampleCorpus ! 0, 9 / 10)]"
  "retrieve exampleSettings exampleCorpus (exampleQuery (Some ''simulation'')) = []"
  by (simp_all add: retrieve_def exampleSettings_def exampleCorpus_def exampleQuery_def
      in_scope_def score_def ranksBefore_def)

text \<open>
  Claim C4. The entries of the result of \<open>retrieve\<close> are in non-increasing order of
  similarity, and of two entries with the same similarity the one whose chunk has the
  earlier sequence position comes first.
\<close>

theorem retrieve_sorted_by_similarity:
  assumes "i < j" and "j < length (retrieve cfg corpus q)"
  shows "snd (retrieve cfg corpus q ! j) \<le> snd (retrieve cfg corpus q ! i) \<and>
         (snd (retrieve cfg corpus q ! i) = snd (retrieve cfg corpus q ! j) \<longrightarrow>
            position (fst (retrieve cfg corpus q ! i)) \<le>
            position (fst (retrieve cfg corpus q ! j)))"
proof -
  have "ranksBefore (retrieve cfg corpus q ! i) (retrieve cfg corpus q ! j)"
    using sorted_retrieve [of cfg corpus q] assms by (simp add: sorted_wrt_iff_nth_less)
  then show ?thesis by (auto simp add: ranksBefore_def)
qed

theorem retrieve_sorted_by_similarity_witness:
  "snd (retrieve exampleSettings exampleCorpus (exampleQuery None) ! 0) = 9 / 10 \<and>
   snd (retrieve exampleSettings exampleCorpus (exampleQuery None) ! 1) = 9 / 10 \<and>
   position (fst (retrieve exampleSettings exampleCorpus (exampleQuery None) ! 0)) \<le>
   position (fst (retrieve exampleSettings exampleCorpus (exampleQuery None) ! 1))"
proof -
  have "(0::nat) < 1"
    and "1 < length (retrieve exampleSettings exampleCorpus (exampleQuery None))"
    by (simp_all add: example_retrieve)
  from retrieve_sorted_by_similarity [OF this]
  show ?thesis by (simp add: example_retrieve)
qed

text \<open>
  Claim C1. When no candidate chunk (no chunk in the scope of the query's filter) meets
  the minimum similarity cutoff, the answer is the refusal: its text is the "not covered
  by course content" refusal, its confidence is below the low-confidence threshold (any
  positive threshold) and its sources are empty; \<open>synthesize\<close> produces it without a
  call to the generation collaborator.
\<close>

theorem no_candidate_refusal:
  assumes "\<forall>c\<in>set corpus. in_scope q c \<longrightarrow> score cfg q c < min_similarity cfg"
      and "0 < low_confidence_threshold cfg"
  shows "synthesize cfg q (retrieve cfg corpus q) = (Inr refusal, []) \<and>
         answer_text refusal = ''not covered by course content'' \<and>
         answer_confidence refusal < low_confidence_threshold cfg \<and>
         answer_sources refusal = []"
  using assms by (simp add: retrieve_Nil synthesize_def refusal_def refusal_text_def)

theorem no_candidate_refusal_witness:
  "synthesize exampleSettings (exampleQuery (Some ''simulation''))
     (retrieve exampleSettings exampleCorpus (exampleQuery (Some ''simulation''))) =
     (Inr refusal, []) \<and>
   answer_confidence refusal < 3 / 10"
proof -
  have a: "\<forall>c\<in>set exampleCorpus. in_scope (exampleQuery (Some ''simulation'')) c \<longrightarrow>
      score exampleSettings (exampleQuery (Some ''simulation'')) c < min_similarity exampleSettings"
    by (simp add: exampleCorpus_def exampleQuery_def exampleSettings_def in_scope_def score_def)
  have b: "0 < low_confidence_threshold exampleSettings"
    by (simp add: exampleSettings_def)
  from no_candidate_refusal [OF a b] show ?thesis
    by (simp add: exampleSettings_def)
qed

text \<open>
  Claim C5. For a non-empty question with module filter \<open>m\<close> that is answered, every
  source identifier of the response is the identifier of a chunk of the corpus whose
  module is \<open>m\<close>, and (identifiers being unique) every chunk the sources refer to has
  module \<open>m\<close>. Chunks outside the filter are excluded before ranking: the result is the
  one retrieved without a filter from the corpus restricted to module \<open>m\<close>.
\<close>

theorem module_filter_correct:
  assumes "question req \<noteq> []"
      and "module_context req = Some m"
      and "chat cfg corpus now req = (Inr ans, calls)"
      and "q = \<lparr>question_text = question req, module_filter = module_context req,
                chapter_filter = chapter_context req, asked_at = now\<rparr>"
  shows "(\<forall>sid\<in>set (answer_sources ans). \<exists>c\<in>set corpus. chunk_id c = sid \<and> module_tag c = m) \<and>
         (distinct (map chunk_id corpus) \<longrightarrow>
            (\<forall>c\<in>set corpus. chunk_id c \<in> set (answer_sources ans) \<longrightarrow> module_tag c = m)) \<and>
         retrieve cfg corpus q =
           retrieve cfg (filter (\<lambda>c. module_tag c = m) corpus) (q\<lparr>module_filter := None\<rparr>)"
proof -
  have syn: "synthesize cfg q (retrieve cfg corpus q) = (Inr ans, calls)"
    using assms(1,3,4) by (simp add: chat_def Let_def)
  have mf: "module_filter q = Some m"
    using assms(2,4) by simp
  have first: "\<forall>sid\<in>set (answer_sources ans). \<exists>c\<in>set corpus. chunk_id c = sid \<and> module_tag c = m"
  proof
    fix sid assume "sid \<in> set (answer_sources ans)"
    then obtain c s where cs: "(c, s) \<in> set (retrieve cfg corpus q)" and sid: "chunk_id c = sid"
      using synthesize_sources [OF syn] by auto
    from retrieve_subset [OF cs] mf have "c \<in> set corpus" "module_tag c = m"
      by (simp_all add: in_scope_def)
    with sid show "\<exists>c\<in>set corpus. chunk_id c = sid \<and> module_tag c = m" by blast
  qed
  have second: "distinct (map chunk_id corpus) \<longrightarrow>
            (\<forall>c\<in>set corpus. chunk_id c \<in> set (answer_sources ans) \<longrightarrow> module_tag c = m)"
  proof (intro impI ballI)
    fix c assume d: "distinct (map chunk_id corpus)" and c: "c \<in> set corpus"
      and "chunk_id c \<in> set (answer_sources ans)"
    then obtain c' where c': "c' \<in> set corpus" "chunk_id c' = chunk_id c" "module_tag c' = m"
      using first by blast
    from d c c'(1,2) have "c' = c"
      by (simp add: distinct_map inj_on_def)
    with c'(3) show "module_tag c = m" by simp
  qed
  from first second retrieve_prefilter [OF mf] show ?thesis by blast
qed

theorem module_filter_correct_witness:
  "fst (chat exampleSettings exampleCorpus 0 exampleRequest) =
     Inr \<lparr>answer_text = ''ROS 2 uses nodes and topics'', answer_confidence = 9 / 10,
          answer_sources = [''C'', ''A'']\<rparr> \<and>
   module_tag (exampleCorpus ! 2) = ''ros2'' \<and> module_tag (exampleCorpus ! 0) = ''ros2''"
proof -
  let ?ans = "\<lparr>answer_text = ''ROS 2 uses nodes and topics'', answer_confidence = 9 / 10,
          answer_sources = [''C'', ''A'']\<rparr>"
  let ?calls = "[(''What is a node?'', [''A node is a process'', ''ROS 2 uses nodes and topics''])]"
  have q: "\<lparr>question_text = question exampleRequest, module_filter = module_context exampleRequest,
       chapter_filter = chapter_context exampleRequest, asked_at = 0\<rparr> =
     exampleQuery (Some ''ros2'')"
    by (simp add: exampleRequest_def exampleQuery_def)
  have ch: "chat exampleSettings exampleCorpus 0 exampleRequest = (Inr ?ans, ?calls)"
    unfolding chat_def Let_def q example_retrieve
    by (simp add: exampleRequest_def synthesize_def exampleQuery_def exampleSettings_def
        exampleCorpus_def dedup_def)
  have ne: "question exampleRequest \<noteq> []"
    by (simp add: exampleRequest_def)
  have mc: "module_context exampleRequest = Some ''ros2''"
    by (simp add: exampleRequest_def)
  have d: "distinct (map chunk_id exampleCorpus)"
    by (simp add: exampleCorpus_def)
  have "\<forall>c\<in>set exampleCorpus. chunk_id c \<in> set (answer_sources ?ans) \<longrightarrow>
      module_tag c = ''ros2''"
    using module_filter_correct [OF ne mc ch refl] d by blast
  then have "module_tag (exampleCorpus ! 2) = ''ros2''"
    and "module_tag (exampleCorpus ! 0) = ''ros2''"
    by (simp_all add: exampleCorpus_def)
  with ch show ?thesis by simp
qed


end
